theory Spec2Isabelle
  imports Main
begin

section \<open>JavaScript values used by the front end\<close>

text \<open>
  A JavaScript string is modelled as a \<^typ>\<open>string\<close>; a character outside ASCII is
  written as its UTF-8 bytes. A value of type \<^verbatim>\<open>string | null\<close> (or an optional
  string) is a \<^typ>\<open>string option\<close>, with \<^term>\<open>None\<close> for \<^verbatim>\<open>null\<close> and
  \<^verbatim>\<open>undefined\<close>.
\<close>

text \<open>Truthiness of a nullable string: \<^verbatim>\<open>null\<close> and the empty string are falsy.\<close>

fun truthy :: "string option \<Rightarrow> bool" where
  "truthy None = False"
| "truthy (Some s) = (s \<noteq> [])"

section \<open>lib/utils.ts: formatPhoneNumber\<close>

text \<open>The character class \<^verbatim>\<open>\d\<close> (without the unicode flag): the ten ASCII digits.\<close>

definition isDigit :: "char \<Rightarrow> bool" where
  "isDigit c = (c \<in> set ''0123456789'')"

text \<open>
  \<^verbatim>\<open>\d{n}\<close> at the head of the input: exactly \<open>n\<close> digits are consumed; the result is
  the text matched and the rest of the input, or \<^term>\<open>None\<close> when the match fails.
\<close>

fun digits :: "nat \<Rightarrow> string \<Rightarrow> (string \<times> string) option" where
  "digits 0 s = Some ([], s)"
| "digits (Suc n) [] = None"
| "digits (Suc n) (c # s) =
     (if isDigit c
      then (case digits n s of None \<Rightarrow> None | Some (m, r) \<Rightarrow> Some (c # m, r))
      else None)"

text \<open>The tail \<^verbatim>\<open>(\d{3})(\d{3})(\d{4})$\<close> of the pattern, giving groups 2, 3 and 4.\<close>

definition match_tail :: "string \<Rightarrow> (string \<times> string \<times> string) option" where
  "match_tail s =
     (case digits 3 s of None \<Rightarrow> None
      | Some (g2, r2) \<Rightarrow>
          (case digits 3 r2 of None \<Rightarrow> None
           | Some (g3, r3) \<Rightarrow>
               (case digits 4 r3 of None \<Rightarrow> None
                | Some (g4, r4) \<Rightarrow> if r4 = [] then Some (g2, g3, g4) else None)))"

text \<open>
  \<^verbatim>\<open>cleaned.match(/^(\d{1})?(\d{3})(\d{3})(\d{4})$/)\<close>. The optional group is greedy:
  the matcher first tries it with one digit and, when the tail then fails, backtracks
  and tries the tail with the group absent (\<^verbatim>\<open>match[1]\<close> is \<^verbatim>\<open>undefined\<close>). The
  pattern is anchored at both ends, so there is no other starting position.
\<close>

definition phone_match :: "string \<Rightarrow> (string option \<times> string \<times> string \<times> string) option" where
  "phone_match s =
     (case (case digits 1 s of None \<Rightarrow> None
            | Some (g1, r1) \<Rightarrow>
                (case match_tail r1 of None \<Rightarrow> None
                 | Some (g2, g3, g4) \<Rightarrow> Some (Some g1, g2, g3, g4))) of
        Some m \<Rightarrow> Some m
      | None \<Rightarrow>
          (case match_tail s of None \<Rightarrow> None
           | Some (g2, g3, g4) \<Rightarrow> Some (None, g2, g3, g4)))"

text \<open>The character class \<^verbatim>\<open>\D\<close>: every character that is no digit.\<close>

definition isNonDigit :: "char \<Rightarrow> bool" where
  "isNonDigit c = (\<not> isDigit c)"

text \<open>
  \<^verbatim>\<open>phone.replace(/\D/g, '')\<close> deletes every character matching \<^verbatim>\<open>\D\<close>; the array
  \<^verbatim>\<open>[intlCode, '(', match[2], ') ', match[3], '-', match[4]].join('')\<close> is the
  concatenation of its elements.
\<close>

definition formatPhoneNumber :: "string \<Rightarrow> string" where
  "formatPhoneNumber phone =
     (let cleaned = filter (\<lambda>c. \<not> isNonDigit c) phone in
      case phone_match cleaned of
        Some (g1, g2, g3, g4) \<Rightarrow>
          (let intlCode = (if truthy g1 then ''+'' @ the g1 @ '' '' else '''')
           in concat [intlCode, ''('', g2, '') '', g3, ''-'', g4])
      | None \<Rightarrow> phone)"

section \<open>lib/utils.ts: translations\<close>

text \<open>
  An object literal is an association list from property names to values; reading a
  property that the object does not have gives \<^verbatim>\<open>undefined\<close> (the properties
  that every object inherits from its prototype are left out).
\<close>

definition property :: "(string \<times> 'a) list \<Rightarrow> string \<Rightarrow> 'a option" where
  "property object k = map_of object k"

definition keys :: "(string \<times> 'a) list \<Rightarrow> string list" where
  "keys object = map fst object"

text \<open>The accented letters of the Spanish table, in UTF-8.\<close>

definition o_acute :: string where "o_acute = [CHR 0xC3, CHR 0xB3]"
definition inverted_exclamation :: string where "inverted_exclamation = [CHR 0xC2, CHR 0xA1]"

definition translations_en :: "(string \<times> string) list" where
  "translations_en =
    [(''title'', ''Health Assessment Form''),
     (''subtitle'', ''Review and Sign''),
     (''description'',
        ''Please review your responses below and sign to complete your annual health assessment.''),
     (''personalInfo'', ''Personal Information''),
     (''healthResponses'', ''Health Assessment Responses''),
     (''name'', ''Name''),
     (''dateOfBirth'', ''Date of Birth''),
     (''zipCode'', ''Zip Code''),
     (''generalHealth'', ''General Health Status''),
     (''moderateActivities'', ''Moderate Activities Limitation''),
     (''climbingStairs'', ''Climbing Stairs Limitation''),
     (''signature'', ''Signature''),
     (''signatureInstructions'', ''Please sign in the box below to confirm your responses''),
     (''clear'', ''Clear''),
     (''submit'', ''Submit Form''),
     (''submitting'', ''Submitting...''),
     (''success'', ''Form Submitted Successfully!''),
     (''successMessage'',
        ''Thank you for completing your health assessment. A confirmation email has been sent.''),
     (''error'', ''Error''),
     (''notProvided'', ''Not provided''),
     (''poweredBy'', ''Powered by'')]"

definition translations_es :: "(string \<times> string) list" where
  "translations_es =
    [(''title'', ''Formulario de Evaluaci'' @ o_acute @ ''n de Salud''),
     (''subtitle'', ''Revisar y Firmar''),
     (''description'',
        ''Por favor revise sus respuestas a continuaci'' @ o_acute
          @ ''n y firme para completar su evaluaci'' @ o_acute @ ''n de salud anual.''),
     (''personalInfo'', ''Informaci'' @ o_acute @ ''n Personal''),
     (''healthResponses'', ''Respuestas de Evaluaci'' @ o_acute @ ''n de Salud''),
     (''name'', ''Nombre''),
     (''dateOfBirth'', ''Fecha de Nacimiento''),
     (''zipCode'', ''C'' @ o_acute @ ''digo Postal''),
     (''generalHealth'', ''Estado de Salud General''),
     (''moderateActivities'', ''Limitaci'' @ o_acute @ ''n en Actividades Moderadas''),
     (''climbingStairs'', ''Limitaci'' @ o_acute @ ''n al Subir Escaleras''),
     (''signature'', ''Firma''),
     (''signatureInstructions'',
        ''Por favor firme en el cuadro de abajo para confirmar sus respuestas''),
     (''clear'', ''Borrar''),
     (''submit'', ''Enviar Formulario''),
     (''submitting'', ''Enviando...''),
     (''success'', inverted_exclamation @ ''Formulario Enviado Exitosamente!''),
     (''successMessage'',
        ''Gracias por completar su evaluaci'' @ o_acute
          @ ''n de salud. Se ha enviado un correo de confirmaci'' @ o_acute @ ''n.''),
     (''error'', ''Error''),
     (''notProvided'', ''No proporcionado''),
     (''poweredBy'', ''Desarrollado por'')]"

text \<open>The object \<^verbatim>\<open>translations\<close>.\<close>

definition translations_table :: "(string \<times> (string \<times> string) list) list" where
  "translations_table = [(''en'', translations_en), (''es'', translations_es)]"

text \<open>\<^verbatim>\<open>type Language = keyof typeof translations\<close>\<close>

definition Language :: "string list" where
  "Language = keys translations_table"

section \<open>lib/api.ts\<close>

text \<open>
  What \<^verbatim>\<open>fetch\<close> gives back: the promise rejects (no connection), or it resolves to
  a response with a status code and a body. \<open>json\<close> is what \<^verbatim>\<open>response.json()\<close>
  resolves to, read at the type the caller declares, and \<^term>\<open>None\<close> when the body
  is no JSON text and \<^verbatim>\<open>response.json()\<close> rejects.
\<close>

record 'a response =
  status :: nat
  body :: string
  json :: "'a option"

text \<open>\<^verbatim>\<open>response.ok\<close>: the status is in the range 200 to 299.\<close>

definition ok :: "'a response \<Rightarrow> bool" where
  "ok r = (200 \<le> status r \<and> status r \<le> 299)"

datatype 'a fetch_outcome = Rejected | Resolved "'a response"

datatype js_error = Error string | TypeError | SyntaxError

definition default_API_URL :: string where
  "default_API_URL = ''https://zappix2-backend.aldea.ai''"

text \<open>\<^verbatim>\<open>process.env.NEXT_PUBLIC_API_URL || 'https://zappix2-backend.aldea.ai'\<close>\<close>

definition API_URL :: "string option \<Rightarrow> string" where
  "API_URL env = (if truthy env then the env else default_API_URL)"

record FormData =
  session_id :: string
  first_name :: string
  language :: string
  date_of_birth :: "string option"
  zip_code :: "string option"
  general_health :: "string option"
  general_health_display :: "string option"
  moderate_activities_limitation :: "string option"
  moderate_activities_display :: "string option"
  climbing_stairs_limitation :: "string option"
  climbing_stairs_display :: "string option"
  call_completed :: bool

record OutboundCallRequest =
  first_name :: string
  phone_number :: string
  language :: "string option"

record OutboundCallResponse =
  success :: bool
  session_id :: string
  message :: string

record SubmitResponse =
  success :: bool
  message :: string

record SessionStatus =
  session_id :: string
  call_completed :: bool
  form_submitted :: bool
  opted_in_for_sms :: bool

text \<open>A request as it is handed to \<^verbatim>\<open>fetch\<close>: method, URL and the JSON object sent.\<close>

record request =
  http_method :: string
  url :: string
  sent :: "(string \<times> string) list option"

text \<open>
  The part of every client function after \<^verbatim>\<open>await fetch(...)\<close>: a rejected fetch
  propagates, a response that is not ok throws \<^verbatim>\<open>new Error(msg)\<close>, and otherwise
  the function returns \<^verbatim>\<open>response.json()\<close>.
\<close>

definition receive :: "string \<Rightarrow> 'a fetch_outcome \<Rightarrow> js_error + 'a" where
  "receive msg outcome =
     (case outcome of
        Rejected \<Rightarrow> Inl TypeError
      | Resolved response \<Rightarrow>
          if \<not> ok response then Inl (Error msg)
          else (case json response of None \<Rightarrow> Inl SyntaxError | Some v \<Rightarrow> Inr v))"

definition getFormData_request :: "string \<Rightarrow> string \<Rightarrow> request" where
  "getFormData_request api sessionId =
     \<lparr>http_method = ''GET'', url = api @ ''/api/forms/'' @ sessionId, sent = None\<rparr>"

definition getFormData :: "FormData fetch_outcome \<Rightarrow> js_error + FormData" where
  "getFormData outcome = receive ''Failed to fetch form data'' outcome"

definition submitForm_request :: "string \<Rightarrow> string \<Rightarrow> string \<Rightarrow> request" where
  "submitForm_request api sessionId signature =
     \<lparr>http_method = ''POST'', url = api @ ''/api/forms/'' @ sessionId @ ''/submit'',
      sent = Some [(''signature'', signature)]\<rparr>"

definition submitForm :: "SubmitResponse fetch_outcome \<Rightarrow> js_error + SubmitResponse" where
  "submitForm outcome = receive ''Failed to submit form'' outcome"

text \<open>\<^verbatim>\<open>JSON.stringify(request)\<close> leaves out a property whose value is undefined.\<close>

definition stringify_OutboundCallRequest :: "OutboundCallRequest \<Rightarrow> (string \<times> string) list" where
  "stringify_OutboundCallRequest r =
     [(''first_name'', OutboundCallRequest.first_name r),
      (''phone_number'', phone_number r)]
     @ (case OutboundCallRequest.language r of None \<Rightarrow> [] | Some l \<Rightarrow> [(''language'', l)])"

definition initiateOutboundCall_request :: "string \<Rightarrow> OutboundCallRequest \<Rightarrow> request" where
  "initiateOutboundCall_request api r =
     \<lparr>http_method = ''POST'', url = api @ ''/api/calls/outbound'',
      sent = Some (stringify_OutboundCallRequest r)\<rparr>"

definition initiateOutboundCall ::
  "OutboundCallResponse fetch_outcome \<Rightarrow> js_error + OutboundCallResponse" where
  "initiateOutboundCall outcome = receive ''Failed to initiate call'' outcome"

definition getSessionStatus_request :: "string \<Rightarrow> string \<Rightarrow> request" where
  "getSessionStatus_request api sessionId =
     \<lparr>http_method = ''GET'', url = api @ ''/api/forms/'' @ sessionId @ ''/status'', sent = None\<rparr>"

definition getSessionStatus :: "SessionStatus fetch_outcome \<Rightarrow> js_error + SessionStatus" where
  "getSessionStatus outcome = receive ''Failed to fetch session status'' outcome"

section \<open>README.md: the table of API endpoints\<close>

text \<open>A path of the table: literal text and the placeholder \<^verbatim>\<open>{session_id}\<close>.\<close>

datatype segment = Lit string | SessionIdParam

fun instantiate :: "segment list \<Rightarrow> string \<Rightarrow> string" where
  "instantiate [] sid = []"
| "instantiate (Lit s # segs) sid = s @ instantiate segs sid"
| "instantiate (SessionIdParam # segs) sid = sid @ instantiate segs sid"

text \<open>The rows of the table: method, endpoint, description.\<close>

definition README_endpoints :: "(string \<times> segment list \<times> string) list" where
  "README_endpoints =
    [(''POST'', [Lit ''/api/calls/outbound''], ''Initiate an outbound call''),
     (''GET'', [Lit ''/api/calls/session/'', SessionIdParam], ''Get session details''),
     (''POST'', [Lit ''/api/calls/sms/'', SessionIdParam], ''Send SMS with form link''),
     (''GET'', [Lit ''/api/forms/'', SessionIdParam], ''Get pre-populated form data''),
     (''POST'', [Lit ''/api/forms/'', SessionIdParam, Lit ''/submit''], ''Submit signed form''),
     (''POST'', [Lit ''/api/twilio/voice/'', SessionIdParam], ''Twilio voice webhook''),
     (''WS'', [Lit ''/api/twilio/media-stream/'', SessionIdParam], ''Real-time audio stream'')]"

section \<open>The session on the server\<close>

text \<open>
  Modelled from the spec: the back end (\<^verbatim>\<open>backend/app\<close>: agents, models, routers,
  services) is not among the sources, so the session and the server's operations on it
  follow sections 3, 4.2, 4.5, 4.6 and 6 of the specification. The lifecycle states of
  section 4.5.
\<close>

datatype phase =
    INITIATED | RINGING | AUTHENTICATING | ASSESSMENT | OPT_IN | OPT_IN_COMPLETE
  | FORM_REVIEW | SIGNED | SUBMITTED
  | FAILED_AUTH | ABANDONED | CALL_ERROR | EXPIRED

text \<open>
  Modelled from the spec: an identity fact supplied by the subject is marked matched,
  unmatched or not yet collected (section 3).
\<close>

datatype fact_status = Matched | Unmatched | NotYetCollected

text \<open>
  Modelled from the spec: a candidate identity fact, with the value that the subject
  supplied (none before it is collected) and its mark (section 3).
\<close>

record IdentityFact =
  supplied :: "string option"
  marked :: fact_status

text \<open>
  Modelled from the spec: a scripted slot has a name, a collected value (nullable) and
  a human-readable display value (section 3).
\<close>

record Slot =
  name :: string
  collected_value :: "string option"
  display_value :: "string option"

text \<open>
  Modelled from the spec: the session entity of section 3, with \<open>opted_in\<close> of
  section 4.5; times are seconds.
\<close>

record Session =
  session_identifier :: string
  subject_first_name :: string
  subject_phone_number :: string
  preferred_language :: string
  date_of_birth_fact :: IdentityFact
  postal_code_fact :: IdentityFact
  partial_identifier_fact :: IdentityFact
  attempt_counter :: nat
  authenticated :: bool
  slots :: "Slot list"
  phase :: phase
  opted_in :: bool
  handoff_token :: "string option"
  token_expiry :: nat
  consumed :: bool
  signature_artifact :: "string option"
  submitted :: bool
  submission_timestamp :: "nat option"

text \<open>
  Modelled from the spec: the session created when an outbound call is requested
  (initiate-call, section 6), in phase \<open>INITIATED\<close> with nothing collected.
\<close>

definition new_session :: "string \<Rightarrow> string \<Rightarrow> string \<Rightarrow> string \<Rightarrow> string list \<Rightarrow> Session" where
  "new_session sid first phone language_code slot_names =
     \<lparr>session_identifier = sid, subject_first_name = first, subject_phone_number = phone,
      preferred_language = language_code,
      date_of_birth_fact = \<lparr>supplied = None, marked = NotYetCollected\<rparr>,
      postal_code_fact = \<lparr>supplied = None, marked = NotYetCollected\<rparr>,
      partial_identifier_fact = \<lparr>supplied = None, marked = NotYetCollected\<rparr>,
      attempt_counter = 0, authenticated = False,
      slots = map (\<lambda>n. \<lparr>name = n, collected_value = None, display_value = None\<rparr>) slot_names,
      phase = INITIATED, opted_in = False, handoff_token = None, token_expiry = 0,
      consumed = False, signature_artifact = None, submitted = False,
      submission_timestamp = None\<rparr>"

subsection \<open>Authentication matcher\<close>

text \<open>
  Modelled from the spec: the three identity facts of section 3 (date of birth, postal
  code, a partial identifier).
\<close>

datatype fact = DateOfBirth | PostalCode | PartialIdentifier

text \<open>Modelled from the spec: the slot of the session that holds a given fact.\<close>

fun fact_of :: "fact \<Rightarrow> Session \<Rightarrow> IdentityFact" where
  "fact_of DateOfBirth s = date_of_birth_fact s"
| "fact_of PostalCode s = postal_code_fact s"
| "fact_of PartialIdentifier s = partial_identifier_fact s"

text \<open>Modelled from the spec: the session with the slot of a given fact replaced.\<close>

fun set_fact :: "fact \<Rightarrow> IdentityFact \<Rightarrow> Session \<Rightarrow> Session" where
  "set_fact DateOfBirth v s = s\<lparr>date_of_birth_fact := v\<rparr>"
| "set_fact PostalCode v s = s\<lparr>postal_code_fact := v\<rparr>"
| "set_fact PartialIdentifier v s = s\<lparr>partial_identifier_fact := v\<rparr>"

text \<open>Modelled from the spec: how many of the three identity facts are marked matched.\<close>

definition matched_facts :: "Session \<Rightarrow> nat" where
  "matched_facts s =
     length (filter (\<lambda>f. marked (fact_of f s) = Matched) [DateOfBirth, PostalCode, PartialIdentifier])"

text \<open>
  Modelled from the spec: the matcher of section 4.2. The spoken value is normalised
  (\<open>normalise\<close> gives \<^term>\<open>None\<close> when that fails, which counts as a non-match) and
  compared with the known-correct value of the fact; the status of that fact is updated,
  a failed submission is counted, and \<open>authenticated\<close> is recomputed by the 2-of-3 rule.
  The second component says whether the matcher signals \<open>LOCKED\<close>: after 3 cumulative
  failed submissions.
\<close>

definition match_fact ::
  "(fact \<Rightarrow> string \<Rightarrow> string option) \<Rightarrow> (fact \<Rightarrow> string) \<Rightarrow> fact \<Rightarrow> string \<Rightarrow> Session
     \<Rightarrow> Session \<times> bool" where
  "match_fact normalise known f spoken s =
     (let matches = (normalise f spoken = Some (known f));
          s1 = set_fact f \<lparr>supplied = Some spoken,
                           marked = (if matches then Matched else Unmatched)\<rparr> s;
          s2 = s1\<lparr>attempt_counter := attempt_counter s1 + (if matches then 0 else 1)\<rparr>;
          s3 = s2\<lparr>authenticated := (2 \<le> matched_facts s2)\<rparr>
      in (s3, 3 \<le> attempt_counter s3))"

text \<open>
  Modelled from the spec: the invariant of section 3, that \<open>authenticated\<close> requires
  at least two of the three identity facts marked matched.
\<close>

definition two_of_three :: "Session \<Rightarrow> bool" where
  "two_of_three s = (authenticated s \<longrightarrow> 2 \<le> matched_facts s)"

subsection \<open>Operations of the state machine\<close>

text \<open>Modelled from the spec: the failures named in sections 4.1, 4.6, 6 and 8.\<close>

datatype failure = NotFound | Expired | AlreadyConsumed | InvalidSignature | PhaseMismatch

text \<open>
  Modelled from the spec: \<open>INITIATED\<close> to \<open>RINGING\<close> when the call is placed
  (section 4.5). In any other phase the session stays as it is.
\<close>

definition call_placed :: "Session \<Rightarrow> Session" where
  "call_placed s = (if phase s = INITIATED then s\<lparr>phase := RINGING\<rparr> else s)"

text \<open>
  Modelled from the spec: \<open>RINGING\<close> to \<open>AUTHENTICATING\<close> when the call is answered
  (section 4.5).
\<close>

definition call_answered :: "Session \<Rightarrow> Session" where
  "call_answered s = (if phase s = RINGING then s\<lparr>phase := AUTHENTICATING\<rparr> else s)"

text \<open>
  Modelled from the spec: the authentication loop of section 4.5, which applies the
  decision of the matcher to the session. An identity fact is taken only in phase
  \<open>AUTHENTICATING\<close>; \<open>LOCKED\<close> leads to \<open>FAILED_AUTH\<close>, and \<open>authenticated\<close> to
  \<open>ASSESSMENT\<close>. In any other phase the session stays as it is.
\<close>

definition identity_fact_spoken ::
  "(fact \<Rightarrow> string \<Rightarrow> string option) \<Rightarrow> (fact \<Rightarrow> string) \<Rightarrow> fact \<Rightarrow> string \<Rightarrow> Session
     \<Rightarrow> Session" where
  "identity_fact_spoken normalise known f spoken s =
     (if phase s \<noteq> AUTHENTICATING then s
      else (case match_fact normalise known f spoken s of
              (s', locked) \<Rightarrow>
                if locked then s'\<lparr>phase := FAILED_AUTH\<rparr>
                else if authenticated s' then s'\<lparr>phase := ASSESSMENT\<rparr>
                else s'))"

text \<open>
  Modelled from the spec: submit-form of section 6. It fails if the phase is not
  \<open>FORM_REVIEW\<close> or if no valid signature is supplied (\<open>valid\<close> says which signature
  artifacts are valid); otherwise the session records the signature and moves to
  \<open>SUBMITTED\<close>.
\<close>

definition submit_form ::
  "(string \<Rightarrow> bool) \<Rightarrow> nat \<Rightarrow> string option \<Rightarrow> Session \<Rightarrow> failure + Session" where
  "submit_form valid now sig s =
     (if phase s \<noteq> FORM_REVIEW then Inl PhaseMismatch
      else (case sig of
              None \<Rightarrow> Inl InvalidSignature
            | Some artifact \<Rightarrow>
                if \<not> valid artifact then Inl InvalidSignature
                else Inr (s\<lparr>signature_artifact := Some artifact, submitted := True,
                            submission_timestamp := Some now, phase := SUBMITTED\<rparr>)))"

text \<open>
  Modelled from the spec: the operations that a sequence of requests and call events
  applies to one session; a failed submit-form leaves the session as it is.
\<close>

datatype operation =
    CallPlaced
  | CallAnswered
  | IdentityFactSpoken fact string
  | SubmitForm nat "string option"

text \<open>Modelled from the spec: one operation applied to the session.\<close>

fun apply_operation ::
  "(fact \<Rightarrow> string \<Rightarrow> string option) \<Rightarrow> (fact \<Rightarrow> string) \<Rightarrow> (string \<Rightarrow> bool)
     \<Rightarrow> operation \<Rightarrow> Session \<Rightarrow> Session" where
  "apply_operation normalise known valid CallPlaced s = call_placed s"
| "apply_operation normalise known valid CallAnswered s = call_answered s"
| "apply_operation normalise known valid (IdentityFactSpoken f spoken) s =
     identity_fact_spoken normalise known f spoken s"
| "apply_operation normalise known valid (SubmitForm now sig) s =
     (case submit_form valid now sig s of Inl failed \<Rightarrow> s | Inr s' \<Rightarrow> s')"

text \<open>Modelled from the spec: a sequence of operations applied from left to right.\<close>

fun apply_operations ::
  "(fact \<Rightarrow> string \<Rightarrow> string option) \<Rightarrow> (fact \<Rightarrow> string) \<Rightarrow> (string \<Rightarrow> bool)
     \<Rightarrow> operation list \<Rightarrow> Session \<Rightarrow> Session" where
  "apply_operations normalise known valid [] s = s"
| "apply_operations normalise known valid (op # ops) s =
     apply_operations normalise known valid ops (apply_operation normalise known valid op s)"

subsection \<open>Queries\<close>






text \<open>
  Modelled from the spec: the session-status query of section 6, which returns the
  four fields for a session that the store holds.
\<close>

definition session_status ::
  "(Session \<Rightarrow> bool) \<Rightarrow> (string \<Rightarrow> Session option) \<Rightarrow> string \<Rightarrow> failure + SessionStatus" where
  "session_status completed store sid =
     (case store sid of
        None \<Rightarrow> Inl NotFound
      | Some s \<Rightarrow>
          Inr \<lparr>SessionStatus.session_id = session_identifier s,
               SessionStatus.call_completed = completed s,
               form_submitted = submitted s,
               opted_in_for_sms = opted_in s\<rparr>)"

section \<open>components/FormField.tsx\<close>

text \<open>
  What the value cell of a field shows: the value as plain text, or the fallback in
  the dimmed italic \<^verbatim>\<open>span\<close>.
\<close>

datatype field_content = ValueText string | FallbackSpan string

text \<open>The default of the optional \<^verbatim>\<open>fallback\<close> property.\<close>

definition fallback_default :: "string option \<Rightarrow> string" where
  "fallback_default fallback = (case fallback of None \<Rightarrow> ''Not provided'' | Some f \<Rightarrow> f)"

text \<open>\<^verbatim>\<open>{value || <span ...>{fallback}</span>}\<close>\<close>

definition FormField :: "string option \<Rightarrow> string option \<Rightarrow> field_content" where
  "FormField val fallback =
     (if truthy val then ValueText (the val) else FallbackSpan (fallback_default fallback))"

section \<open>components/SignaturePad.tsx\<close>

text \<open>
  The pad draws on the canvas of the library \<^verbatim>\<open>react-signature-canvas\<close>. The three
  methods of the canvas that the pad calls are parameters of the model.
\<close>

record 'c SignatureCanvas =
  isEmpty :: "'c \<Rightarrow> bool"
  toDataURL :: "'c \<Rightarrow> string \<Rightarrow> string"
  clear :: "'c \<Rightarrow> 'c"

text \<open>
  The state of the pad: \<^verbatim>\<open>sigRef.current\<close> (null until the canvas is mounted) and
  \<^verbatim>\<open>hasSignature\<close>.
\<close>

record 'c SignaturePad =
  sigRef :: "'c option"
  hasSignature :: bool

text \<open>
  Both handlers return the new state of the pad and the list of calls they make to the
  callback \<^verbatim>\<open>onSignature\<close>, each with its argument.
\<close>

definition handleEnd ::
  "'c SignatureCanvas \<Rightarrow> 'c SignaturePad \<Rightarrow> 'c SignaturePad \<times> string option list" where
  "handleEnd lib pad =
     (case sigRef pad of
        None \<Rightarrow> (pad, [])
      | Some canvas \<Rightarrow>
          if \<not> isEmpty lib canvas
          then (pad\<lparr>hasSignature := True\<rparr>, [Some (toDataURL lib canvas ''image/png'')])
          else (pad, []))"

definition handleClear ::
  "'c SignatureCanvas \<Rightarrow> 'c SignaturePad \<Rightarrow> 'c SignaturePad \<times> string option list" where
  "handleClear lib pad =
     (case sigRef pad of
        None \<Rightarrow> (pad, [])
      | Some canvas \<Rightarrow>
          (pad\<lparr>sigRef := Some (clear lib canvas), hasSignature := False\<rparr>, [None]))"

section \<open>pages/form/[sessionId].tsx: FormPage\<close>

text \<open>An entry of \<^verbatim>\<open>router.query\<close>: \<^verbatim>\<open>string | string[] | undefined\<close>.\<close>

datatype query_value = Undefined | Single string | Multiple "string list"

text \<open>
  \<^verbatim>\<open>!sessionId || typeof sessionId !== 'string'\<close> is false exactly for a non-empty
  string (an array is truthy, but no string).
\<close>

fun usable :: "query_value \<Rightarrow> string option" where
  "usable Undefined = None"
| "usable (Single s) = (if s = [] then None else Some s)"
| "usable (Multiple ss) = None"

record FormPage =
  sessionId :: query_value
  formData :: "FormData option"
  isLoading :: bool
  error :: "string option"
  signature :: "string option"
  isSubmitting :: bool
  isSubmitted :: bool

definition FormPage_initial :: "query_value \<Rightarrow> FormPage" where
  "FormPage_initial q =
     \<lparr>sessionId = q, formData = None, isLoading = True, error = None, signature = None,
      isSubmitting = False, isSubmitted = False\<rparr>"

text \<open>\<^verbatim>\<open>fetchData\<close>, from the point where the request of \<^verbatim>\<open>getFormData\<close> settles.\<close>

definition fetchData :: "FormData fetch_outcome \<Rightarrow> FormPage \<Rightarrow> FormPage" where
  "fetchData outcome page =
     (case getFormData outcome of
        Inr data \<Rightarrow> page\<lparr>formData := Some data, FormPage.isLoading := False\<rparr>
      | Inl err \<Rightarrow>
          page\<lparr>error := Some ''Unable to load form data. Please try again later.'',
               FormPage.isLoading := False\<rparr>)"

text \<open>
  \<^verbatim>\<open>handleSubmit\<close> up to its \<^verbatim>\<open>await\<close>: the new state and the calls of
  \<^verbatim>\<open>submitForm\<close>, each with the session id and the value of \<^verbatim>\<open>signature\<close> passed.
\<close>

definition FormPage_handleSubmit :: "FormPage \<Rightarrow> FormPage \<times> (string \<times> string option) list" where
  "FormPage_handleSubmit page =
     (if \<not> truthy (signature page) \<or> usable (sessionId page) = None then (page, [])
      else (page\<lparr>isSubmitting := True\<rparr>, [(the (usable (sessionId page)), signature page)]))"

text \<open>\<^verbatim>\<open>handleSubmit\<close> from the point where the request of \<^verbatim>\<open>submitForm\<close> settles.\<close>

definition FormPage_handleSubmit_settled :: "SubmitResponse fetch_outcome \<Rightarrow> FormPage \<Rightarrow> FormPage" where
  "FormPage_handleSubmit_settled outcome page =
     (case submitForm outcome of
        Inr response \<Rightarrow> page\<lparr>isSubmitted := True, isSubmitting := False\<rparr>
      | Inl err \<Rightarrow>
          page\<lparr>error := Some ''Failed to submit form. Please try again.'',
               isSubmitting := False\<rparr>)"

text \<open>\<^verbatim>\<open>const lang = (formData?.language as Language) || 'en'\<close>\<close>

definition lang :: "FormPage \<Rightarrow> string" where
  "lang page =
     (case formData page of
        None \<Rightarrow> ''en''
      | Some data \<Rightarrow> if FormData.language data = [] then ''en'' else FormData.language data)"

text \<open>
  What the page shows. A text read from the table \<^verbatim>\<open>t\<close> is optional, since a
  property that the table lacks reads as \<^verbatim>\<open>undefined\<close> and shows nothing. The form
  view lists its fields (label and content), whether the submit button is disabled and
  the label of the button; headings and decoration are left out. When \<^verbatim>\<open>t\<close> itself
  is \<^verbatim>\<open>undefined\<close>, reading a property of it throws.
\<close>

datatype view =
    LoadingView
  | ErrorView "string option" string
  | SubmittedView "string option" "string option"
  | FormView "(string option \<times> field_content) list" bool "string option"
  | RenderThrows js_error

definition form_fields :: "(string \<times> string) list \<Rightarrow> FormData \<Rightarrow> (string option \<times> field_content) list" where
  "form_fields t data =
     [(property t ''name'', FormField (Some (FormData.first_name data)) (property t ''notProvided'')),
      (property t ''dateOfBirth'', FormField (date_of_birth data) (property t ''notProvided'')),
      (property t ''zipCode'', FormField (zip_code data) (property t ''notProvided'')),
      (property t ''generalHealth'', FormField (general_health_display data) (property t ''notProvided'')),
      (property t ''moderateActivities'',
         FormField (moderate_activities_display data) (property t ''notProvided'')),
      (property t ''climbingStairs'',
         FormField (climbing_stairs_display data) (property t ''notProvided''))]"

text \<open>\<^verbatim>\<open>disabled={!signature || isSubmitting}\<close>\<close>

definition FormPage_submit_disabled :: "FormPage \<Rightarrow> bool" where
  "FormPage_submit_disabled page = (\<not> truthy (signature page) \<or> isSubmitting page)"

definition render :: "FormPage \<Rightarrow> view" where
  "render page =
     (if FormPage.isLoading page then LoadingView
      else case property translations_table (lang page) of
        None \<Rightarrow> RenderThrows TypeError
      | Some t \<Rightarrow>
          if truthy (error page) \<or> formData page = None
          then ErrorView (property t ''error'')
                 (if truthy (error page) then the (error page) else ''Form not found'')
          else if isSubmitted page
          then SubmittedView (property t ''success'') (property t ''successMessage'')
          else FormView (form_fields t (the (formData page)))
                 (FormPage_submit_disabled page)
                 (property t (if isSubmitting page then ''submitting'' else ''submit'')))"

fun is_FormView :: "view \<Rightarrow> bool" where
  "is_FormView (FormView fs d l) = True"
| "is_FormView v = False"

fun is_SubmittedView :: "view \<Rightarrow> bool" where
  "is_SubmittedView (SubmittedView t m) = True"
| "is_SubmittedView v = False"

text \<open>
  What can happen to the page: the router delivers the query, the request of
  \<^verbatim>\<open>getFormData\<close> settles, the pad calls \<^verbatim>\<open>onSignature\<close>, the form is submitted,
  the request of \<^verbatim>\<open>submitForm\<close> settles. The pad and the form exist only while the
  form view is shown; the browser does not submit a form through a disabled button; a
  request settles only when one was sent.
\<close>

datatype form_event =
    RouterQuery query_value
  | FormDataSettled "FormData fetch_outcome"
  | OnSignature "string option"
  | FormSubmit
  | SubmitSettled "SubmitResponse fetch_outcome"

fun FormPage_step :: "form_event \<Rightarrow> FormPage \<Rightarrow> FormPage \<times> (string \<times> string option) list" where
  "FormPage_step (RouterQuery q) page = (page\<lparr>sessionId := q\<rparr>, [])"
| "FormPage_step (FormDataSettled outcome) page =
     (if usable (sessionId page) = None then (page, []) else (fetchData outcome page, []))"
| "FormPage_step (OnSignature v) page =
     (if is_FormView (render page) then (page\<lparr>signature := v\<rparr>, []) else (page, []))"
| "FormPage_step FormSubmit page =
     (if is_FormView (render page) \<and> \<not> FormPage_submit_disabled page
      then FormPage_handleSubmit page else (page, []))"
| "FormPage_step (SubmitSettled outcome) page =
     (if isSubmitting page then (FormPage_handleSubmit_settled outcome page, []) else (page, []))"

fun FormPage_run :: "form_event list \<Rightarrow> FormPage \<Rightarrow> FormPage \<times> (string \<times> string option) list" where
  "FormPage_run [] page = (page, [])"
| "FormPage_run (e # es) page =
     (case FormPage_step e page of
        (page', calls) \<Rightarrow>
          (case FormPage_run es page' of (page'', calls') \<Rightarrow> (page'', calls @ calls')))"

text \<open>
  The properties of the table \<^verbatim>\<open>t\<close> that the page reads, in the order of their
  first use in the source.
\<close>

definition FormPage_reads :: "string list" where
  "FormPage_reads =
     [''error'', ''success'', ''successMessage'', ''title'', ''subtitle'', ''description'',
      ''personalInfo'', ''name'', ''notProvided'', ''dateOfBirth'', ''zipCode'',
      ''healthResponses'', ''generalHealth'', ''moderateActivities'', ''climbingStairs'',
      ''signature'', ''signatureInstructions'', ''clear'', ''submitting'', ''submit'',
      ''poweredBy'']"

section \<open>pages/index.tsx: Home\<close>

record HomeResult =
  success :: bool
  message :: string
  sessionId :: "string option"

record Home =
  firstName :: string
  phoneNumber :: string
  language :: string
  isLoading :: bool
  result :: "HomeResult option"

definition Home_initial :: Home where
  "Home_initial =
     \<lparr>firstName = '''', phoneNumber = '''', Home.language = ''en'', Home.isLoading = False,
      result = None\<rparr>"

definition n_tilde :: string where "n_tilde = [CHR 0xC3, CHR 0xB1]"

text \<open>The language buttons: value and label.\<close>

definition language_options :: "(string \<times> string) list" where
  "language_options = [(''en'', ''English''), (''es'', ''Espa'' @ n_tilde @ ''ol'')]"

text \<open>\<^verbatim>\<open>handleSubmit\<close> up to its \<^verbatim>\<open>await\<close>, with the calls of \<^verbatim>\<open>initiateOutboundCall\<close>.\<close>

definition Home_handleSubmit :: "Home \<Rightarrow> Home \<times> OutboundCallRequest list" where
  "Home_handleSubmit home =
     (home\<lparr>Home.isLoading := True, result := None\<rparr>,
      [\<lparr>OutboundCallRequest.first_name = firstName home, phone_number = phoneNumber home,
        OutboundCallRequest.language = Some (Home.language home)\<rparr>])"

text \<open>\<^verbatim>\<open>handleSubmit\<close> from the point where the request settles.\<close>

definition Home_handleSubmit_settled :: "OutboundCallResponse fetch_outcome \<Rightarrow> Home \<Rightarrow> Home" where
  "Home_handleSubmit_settled outcome home =
     (case initiateOutboundCall outcome of
        Inr response \<Rightarrow>
          home\<lparr>result := Some \<lparr>HomeResult.success = OutboundCallResponse.success response,
                                HomeResult.message = OutboundCallResponse.message response,
                                HomeResult.sessionId = Some (OutboundCallResponse.session_id response)\<rparr>,
               Home.isLoading := False\<rparr>
      | Inl err \<Rightarrow>
          home\<lparr>result := Some \<lparr>HomeResult.success = False,
                                HomeResult.message = ''Failed to initiate call. Please try again.'',
                                HomeResult.sessionId = None\<rparr>,
               Home.isLoading := False\<rparr>)"

text \<open>\<^verbatim>\<open>disabled={isLoading || !firstName || !phoneNumber}\<close>\<close>

definition Home_submit_disabled :: "Home \<Rightarrow> bool" where
  "Home_submit_disabled home =
     (Home.isLoading home \<or> firstName home = [] \<or> phoneNumber home = [])"

text \<open>
  What can happen to the page: text is typed into one of the two inputs, the language
  button number \<open>k\<close> is clicked, the form is submitted, the request settles. The browser
  does not submit a form through a disabled button.
\<close>

datatype home_event =
    FirstNameChange string
  | PhoneNumberChange string
  | LanguageClick nat
  | HomeSubmit
  | CallSettled "OutboundCallResponse fetch_outcome"

fun Home_step :: "home_event \<Rightarrow> Home \<Rightarrow> Home \<times> OutboundCallRequest list" where
  "Home_step (FirstNameChange s) home = (home\<lparr>firstName := s\<rparr>, [])"
| "Home_step (PhoneNumberChange s) home = (home\<lparr>phoneNumber := s\<rparr>, [])"
| "Home_step (LanguageClick k) home =
     (if k < length language_options
      then (home\<lparr>Home.language := fst (language_options ! k)\<rparr>, []) else (home, []))"
| "Home_step HomeSubmit home =
     (if Home_submit_disabled home then (home, []) else Home_handleSubmit home)"
| "Home_step (CallSettled outcome) home =
     (if Home.isLoading home then (Home_handleSubmit_settled outcome home, []) else (home, []))"

fun Home_run :: "home_event list \<Rightarrow> Home \<Rightarrow> Home \<times> OutboundCallRequest list" where
  "Home_run [] home = (home, [])"
| "Home_run (e # es) home =
     (case Home_step e home of
        (home', calls) \<Rightarrow>
          (case Home_run es home' of (home'', calls') \<Rightarrow> (home'', calls @ calls')))"

section \<open>Example inputs\<close>

text \<open>A form as the server may send it, for a Spanish-speaking subject.\<close>

definition example_FormData :: FormData where
  "example_FormData =
     \<lparr>FormData.session_id = ''3f2a'', FormData.first_name = ''Ana'', FormData.language = ''es'',
      date_of_birth = Some ''1980-01-31'', zip_code = None,
      general_health = Some ''good'', general_health_display = Some ''Good'',
      moderate_activities_limitation = None, moderate_activities_display = None,
      climbing_stairs_limitation = Some ''limited_a_little'',
      climbing_stairs_display = Some ''Limited a little'',
      FormData.call_completed = True\<rparr>"

text \<open>
  The subject opens the form, draws a signature and submits; the server answers the
  submission with status 500.
\<close>

definition example_failed_submission :: "form_event list" where
  "example_failed_submission =
     [FormDataSettled (Resolved \<lparr>status = 200, body = '''', json = Some example_FormData\<rparr>),
      OnSignature (Some ''data:image/png;base64,iVBOR''),
      FormSubmit,
      SubmitSettled (Resolved \<lparr>status = 500, body = ''Internal Server Error'', json = None\<rparr>)]"

text \<open>The same submission, answered with status 200.\<close>

definition example_successful_submission :: "form_event list" where
  "example_successful_submission =
     [FormDataSettled (Resolved \<lparr>status = 200, body = '''', json = Some example_FormData\<rparr>),
      OnSignature (Some ''data:image/png;base64,iVBOR''),
      FormSubmit,
      SubmitSettled (Resolved \<lparr>status = 200, body = '''',
        json = Some \<lparr>SubmitResponse.success = True, SubmitResponse.message = ''Form submitted''\<rparr>\<rparr>)]"

text \<open>
  On the home page: submitting the empty form, then filling it in, choosing the second
  language button and a button that does not exist, and submitting again.
\<close>

definition example_home_events :: "home_event list" where
  "example_home_events =
     [HomeSubmit, FirstNameChange ''Ana'', PhoneNumberChange ''+15550001111'',
      LanguageClick 1, LanguageClick 5, HomeSubmit]"

text \<open>A canvas as the list of its strokes, with the three methods that the pad calls.\<close>

definition example_canvas :: "nat list SignatureCanvas" where
  "example_canvas =
     \<lparr>isEmpty = (\<lambda>strokes. strokes = []),
      toDataURL = (\<lambda>strokes type. ''data:'' @ type @ '';base64,iVBOR''),
      clear = (\<lambda>strokes. [])\<rparr>"

text \<open>
  Modelled from the spec: a session that has reached the review of the form, two facts
  matched and two of the three health slots filled.
\<close>

definition example_Session :: Session where
  "example_Session =
     (new_session ''3f2a'' ''Ana'' ''+15550001111'' ''es''
        [''general_health'', ''moderate_activities_limitation'', ''climbing_stairs_limitation''])
     \<lparr>date_of_birth_fact := \<lparr>supplied = Some ''1980-01-31'', marked = Matched\<rparr>,
      postal_code_fact := \<lparr>supplied = Some ''02134'', marked = Matched\<rparr>,
      authenticated := True,
      slots := [\<lparr>name = ''general_health'', collected_value = Some ''good'',
                  display_value = Some ''Good''\<rparr>,
                \<lparr>name = ''moderate_activities_limitation'', collected_value = None,
                  display_value = None\<rparr>,
                \<lparr>name = ''climbing_stairs_limitation'',
                  collected_value = Some ''limited_a_little'',
                  display_value = Some ''Limited a little''\<rparr>],
      phase := FORM_REVIEW, opted_in := True\<rparr>"

text \<open>Modelled from the spec: a session store that holds this one session.\<close>

definition example_store :: "string \<Rightarrow> Session option" where
  "example_store = Map.empty(''3f2a'' \<mapsto> example_Session)"

section \<open>Properties of formatPhoneNumber\<close>

lemma digits_all:
  "\<forall>c \<in> set s. isDigit c \<Longrightarrow>
     digits n s = (if n \<le> length s then Some (take n s, drop n s) else None)"
  by (induction n s rule: digits.induct) auto

lemma match_tail_all:
  assumes "\<forall>c \<in> set s. isDigit c"
  shows "match_tail s =
     (if length s = 10 then Some (take 3 s, take 3 (drop 3 s), drop 6 s) else None)"
proof -
  have d3: "\<forall>c \<in> set (drop 3 s). isDigit c" and d6: "\<forall>c \<in> set (drop 6 s). isDigit c"
    using assms by (auto dest: in_set_dropD)
  have t4: "take 4 (drop 6 s) = drop 6 s" if "length s = 10"
    using that by simp
  show ?thesis
    unfolding match_tail_def
    using digits_all [OF assms, of 3] digits_all [OF d3, of 3] digits_all [OF d6, of 4] t4
    by (auto simp: add.commute)
qed

lemma phone_match_all:
  assumes "\<forall>c \<in> set s. isDigit c"
  shows "phone_match s =
     (if length s = 11
      then Some (Some (take 1 s), take 3 (drop 1 s), take 3 (drop 4 s), drop 7 s)
      else if length s = 10 then Some (None, take 3 s, take 3 (drop 3 s), drop 6 s)
      else None)"
proof -
  have d1: "\<forall>c \<in> set (drop 1 s). isDigit c"
    using assms by (auto dest: in_set_dropD)
  show ?thesis
    unfolding phone_match_def
    using digits_all [OF assms, of 1] match_tail_all [OF assms] match_tail_all [OF d1]
    by (auto simp: add.commute)
qed

lemma cleaned_digits: "\<forall>c \<in> set (filter (\<lambda>c. \<not> isNonDigit c) phone). isDigit c"
  by (simp add: isNonDigit_def)

lemma formatPhoneNumber_cases:
  "formatPhoneNumber phone =
     (let ds = filter isDigit phone in
      if length ds = 11
      then ''+'' @ take 1 ds @ '' ('' @ take 3 (drop 1 ds) @ '') '' @ take 3 (drop 4 ds)
             @ ''-'' @ drop 7 ds
      else if length ds = 10
      then ''('' @ take 3 ds @ '') '' @ take 3 (drop 3 ds) @ ''-'' @ drop 6 ds
      else phone)"
  unfolding formatPhoneNumber_def Let_def
  using phone_match_all [OF cleaned_digits, of phone]
  by (auto simp: take_Suc_conv_app_nth isNonDigit_def)

text \<open>
  Claim C9. For every input string, \<open>formatPhoneNumber\<close> first removes all non-digit
  characters. If exactly ten digits \<open>d1 \<dots> d10\<close> remain, the result is
  \<open>(d1d2d3) d4d5d6-d7d8d9d10\<close>; if exactly eleven digits \<open>d0 d1 \<dots> d10\<close> remain, the
  result is the same with the prefix \<open>+d0\<close> and a space; for every other number of
  digits the result is the input string, unchanged.
\<close>

theorem formatPhoneNumber_spec:
  "(filter isDigit phone = [d1, d2, d3, d4, d5, d6, d7, d8, d9, d10] \<longrightarrow>
      formatPhoneNumber phone =
        ''('' @ [d1, d2, d3] @ '') '' @ [d4, d5, d6] @ ''-'' @ [d7, d8, d9, d10]) \<and>
   (filter isDigit phone = [d0, d1, d2, d3, d4, d5, d6, d7, d8, d9, d10] \<longrightarrow>
      formatPhoneNumber phone =
        ''+'' @ [d0] @ '' ('' @ [d1, d2, d3] @ '') '' @ [d4, d5, d6] @ ''-'' @ [d7, d8, d9, d10]) \<and>
   (length (filter isDigit phone) \<noteq> 10 \<and> length (filter isDigit phone) \<noteq> 11 \<longrightarrow>
      formatPhoneNumber phone = phone)"
  by (simp add: formatPhoneNumber_cases Let_def)

theorem formatPhoneNumber_spec_witness:
  "formatPhoneNumber ''555.123.4567'' = ''(555) 123-4567'' \<and>
   formatPhoneNumber ''+1 (555) 123-4567'' = ''+1 (555) 123-4567'' \<and>
   formatPhoneNumber ''1-555-123-4567'' = ''+1 (555) 123-4567'' \<and>
   formatPhoneNumber ''12345 ext. 6'' = ''12345 ext. 6''"
  using formatPhoneNumber_spec [where phone = "''555.123.4567''"
          and ?d1.0 = "CHR ''5''" and ?d2.0 = "CHR ''5''" and ?d3.0 = "CHR ''5''"
          and ?d4.0 = "CHR ''1''" and ?d5.0 = "CHR ''2''" and ?d6.0 = "CHR ''3''"
          and ?d7.0 = "CHR ''4''" and ?d8.0 = "CHR ''5''" and ?d9.0 = "CHR ''6''"
          and ?d10.0 = "CHR ''7''"]
        formatPhoneNumber_spec [where phone = "''+1 (555) 123-4567''"
          and ?d0.0 = "CHR ''1''"
          and ?d1.0 = "CHR ''5''" and ?d2.0 = "CHR ''5''" and ?d3.0 = "CHR ''5''"
          and ?d4.0 = "CHR ''1''" and ?d5.0 = "CHR ''2''" and ?d6.0 = "CHR ''3''"
          and ?d7.0 = "CHR ''4''" and ?d8.0 = "CHR ''5''" and ?d9.0 = "CHR ''6''"
          and ?d10.0 = "CHR ''7''"]
        formatPhoneNumber_spec [where phone = "''1-555-123-4567''"
          and ?d0.0 = "CHR ''1''"
          and ?d1.0 = "CHR ''5''" and ?d2.0 = "CHR ''5''" and ?d3.0 = "CHR ''5''"
          and ?d4.0 = "CHR ''1''" and ?d5.0 = "CHR ''2''" and ?d6.0 = "CHR ''3''"
          and ?d7.0 = "CHR ''4''" and ?d8.0 = "CHR ''5''" and ?d9.0 = "CHR ''6''"
          and ?d10.0 = "CHR ''7''"]
        formatPhoneNumber_spec [where phone = "''12345 ext. 6''"]
  by (simp add: isDigit_def)

section \<open>Properties of FormField\<close>

text \<open>
  Claim C10. \<open>FormField\<close> renders the fallback text (by default "Not provided")
  exactly when the value is null or the empty string, and renders the value itself for
  every non-empty string; so an empty-string value is shown as not provided, exactly
  like a null value.
\<close>

theorem FormField_fallback_iff:
  "((\<exists>f. FormField val fallback = FallbackSpan f) \<longleftrightarrow> (val = None \<or> val = Some '''')) \<and>
   (val = None \<or> val = Some '''' \<longrightarrow>
      FormField val fallback = FallbackSpan (case fallback of None \<Rightarrow> ''Not provided'' | Some f \<Rightarrow> f)) \<and>
   (\<forall>s. s \<noteq> '''' \<longrightarrow> FormField (Some s) fallback = ValueText s) \<and>
   FormField (Some '''') fallback = FormField None fallback"
  by (cases val) (auto simp: FormField_def fallback_default_def)

theorem FormField_fallback_iff_witness:
  "FormField None None = FallbackSpan ''Not provided'' \<and>
   FormField (Some '''') (Some ''No proporcionado'') = FallbackSpan ''No proporcionado'' \<and>
   FormField (Some ''02134'') (Some ''No proporcionado'') = ValueText ''02134''"
  using FormField_fallback_iff [of None None]
        FormField_fallback_iff [of "Some ''''" "Some ''No proporcionado''"]
        FormField_fallback_iff [of "Some ''02134''" "Some ''No proporcionado''"]
  by simp

section \<open>The 2-of-3 invariant of the session\<close>

lemma matched_facts_simps [simp]:
  "matched_facts (s\<lparr>attempt_counter := n\<rparr>) = matched_facts s"
  "matched_facts (s\<lparr>authenticated := b\<rparr>) = matched_facts s"
  "matched_facts (s\<lparr>phase := p\<rparr>) = matched_facts s"
  "matched_facts (s\<lparr>signature_artifact := a\<rparr>) = matched_facts s"
  "matched_facts (s\<lparr>submitted := b\<rparr>) = matched_facts s"
  "matched_facts (s\<lparr>submission_timestamp := t\<rparr>) = matched_facts s"
  by (simp_all add: matched_facts_def)

lemma match_fact_two_of_three:
  "authenticated (fst (match_fact normalise known f spoken s))
     = (2 \<le> matched_facts (fst (match_fact normalise known f spoken s)))"
  by (simp add: match_fact_def Let_def)

lemma identity_fact_spoken_two_of_three:
  "two_of_three s \<Longrightarrow> two_of_three (identity_fact_spoken normalise known f spoken s)"
  using match_fact_two_of_three [of normalise known f spoken s]
  by (auto simp: identity_fact_spoken_def two_of_three_def split: prod.splits)

lemma submit_form_two_of_three:
  "two_of_three s \<Longrightarrow> submit_form valid now sig s = Inr s' \<Longrightarrow> two_of_three s'"
  by (auto simp: submit_form_def two_of_three_def split: if_splits option.splits)

lemma apply_operation_two_of_three:
  assumes "two_of_three s"
  shows "two_of_three (apply_operation normalise known valid op s)"
proof (cases op)
  case CallPlaced
  with assms show ?thesis by (simp add: call_placed_def two_of_three_def)
next
  case CallAnswered
  with assms show ?thesis by (simp add: call_answered_def two_of_three_def)
next
  case (IdentityFactSpoken f spoken)
  with assms show ?thesis by (simp add: identity_fact_spoken_two_of_three)
next
  case (SubmitForm now sig)
  with assms show ?thesis
    by (auto split: sum.splits dest: submit_form_two_of_three)
qed

lemma apply_operations_two_of_three:
  "two_of_three s \<Longrightarrow> two_of_three (apply_operations normalise known valid ops s)"
  by (induction ops arbitrary: s) (simp_all add: apply_operation_two_of_three)

lemma new_session_two_of_three: "two_of_three (new_session sid first phone l names)"
  by (simp add: two_of_three_def new_session_def)

text \<open>
  Claim C1. For every session, \<open>authenticated\<close> is true only if at least two of the
  three identity facts (date of birth, postal code, partial identifier) are marked
  matched: no sequence of operations, starting from a new session, produces a session
  that is authenticated with fewer than two matched facts.
\<close>

theorem authenticated_two_of_three:
  "authenticated (apply_operations normalise known valid ops (new_session sid first phone l names))
     \<longrightarrow> 2 \<le> matched_facts
            (apply_operations normalise known valid ops (new_session sid first phone l names))"
  using apply_operations_two_of_three [OF new_session_two_of_three]
  by (simp add: two_of_three_def)

theorem authenticated_two_of_three_witness:
  "authenticated (apply_operations (\<lambda>f v. Some v)
          (\<lambda>f. if f = DateOfBirth then ''1980-01-31'' else if f = PostalCode then ''02134'' else ''6789'')
          (\<lambda>a. True)
          [CallPlaced, CallAnswered, IdentityFactSpoken DateOfBirth ''1980-01-31'',
           IdentityFactSpoken PartialIdentifier ''0000'', IdentityFactSpoken PostalCode ''02134'']
          (new_session ''s1'' ''Ana'' ''+15550001111'' ''es'' []))
   \<and> 2 \<le> matched_facts (apply_operations (\<lambda>f v. Some v)
          (\<lambda>f. if f = DateOfBirth then ''1980-01-31'' else if f = PostalCode then ''02134'' else ''6789'')
          (\<lambda>a. True)
          [CallPlaced, CallAnswered, IdentityFactSpoken DateOfBirth ''1980-01-31'',
           IdentityFactSpoken PartialIdentifier ''0000'', IdentityFactSpoken PostalCode ''02134'']
          (new_session ''s1'' ''Ana'' ''+15550001111'' ''es'' []))"
  using authenticated_two_of_three [of "\<lambda>f v. Some v"
          "\<lambda>f. if f = DateOfBirth then ''1980-01-31'' else if f = PostalCode then ''02134'' else ''6789''"
          "\<lambda>a. True"
          "[CallPlaced, CallAnswered, IdentityFactSpoken DateOfBirth ''1980-01-31'',
           IdentityFactSpoken PartialIdentifier ''0000'', IdentityFactSpoken PostalCode ''02134'']"
          "''s1''" "''Ana''" "''+15550001111''" "''es''" "[]"]
  by (simp add: new_session_def call_placed_def call_answered_def identity_fact_spoken_def
        match_fact_def matched_facts_def Let_def)

section \<open>Properties of the client functions\<close>

lemma receive_not_ok: "\<not> ok response \<Longrightarrow> receive msg (Resolved response) = Inl (Error msg)"
  by (simp add: receive_def)


section \<open>FormPage: loading the form\<close>

lemma property_en: "property translations_table ''en'' = Some translations_en"
  by (simp add: property_def translations_table_def)

lemma error_en: "property translations_en ''error'' = Some ''Error''"
  by (simp add: property_def translations_en_def)

lemma fetchData_failed:
  "getFormData outcome = Inl e \<Longrightarrow>
     fetchData outcome page =
       page\<lparr>error := Some ''Unable to load form data. Please try again later.'',
            FormPage.isLoading := False\<rparr>"
  by (simp add: fetchData_def)

lemma render_load_failed:
  assumes "getFormData outcome = Inl e" and "formData page = None"
  shows "render (fetchData outcome page)
           = ErrorView (Some ''Error'') ''Unable to load form data. Please try again later.''"
  using assms
  by (simp add: fetchData_failed render_def lang_def property_en error_en)

text \<open>
  Claim C3, as stated: token misuse (expired, already consumed, unknown) reaches the
  web user as a distinct, user-visible reason, so that the page can tell an expired link
  from an already submitted form. It fails: a response with status 410 and the text
  "Link expired" and a response with status 409 and the text "Form already submitted"
  lead to the same view, the one generic message.
\<close>

theorem token_misuse_counterexample:
  "render (fetchData (Resolved \<lparr>status = 410, body = ''Link expired'', json = None\<rparr>)
             (FormPage_initial (Single ''3f2a'')))
     = ErrorView (Some ''Error'') ''Unable to load form data. Please try again later.'' \<and>
   render (fetchData (Resolved \<lparr>status = 409, body = ''Form already submitted'', json = None\<rparr>)
             (FormPage_initial (Single ''3f2a'')))
     = ErrorView (Some ''Error'') ''Unable to load form data. Please try again later.''"
  by (simp add: render_load_failed getFormData_def receive_def ok_def FormPage_initial_def)

text \<open>
  Claim C3, amended. Every response to the form-data request that is not ok makes
  \<open>getFormData\<close> throw the same error, whatever its status and body; and whenever
  \<open>getFormData\<close> throws, a page that has no form data shows the error view with the
  title "Error" and the one message "Unable to load form data. Please try again
  later.": the page does not tell an expired link from a consumed or unknown one.
\<close>

theorem load_failure_is_generic:
  "(\<not> ok response \<longrightarrow>
      getFormData (Resolved response) = Inl (Error ''Failed to fetch form data'')) \<and>
   (\<forall>e. getFormData outcome = Inl e \<and> formData page = None \<longrightarrow>
      render (fetchData outcome page)
        = ErrorView (Some ''Error'') ''Unable to load form data. Please try again later.'')"
  by (auto simp: getFormData_def receive_not_ok render_load_failed)

theorem load_failure_is_generic_witness:
  "\<not> ok \<lparr>status = 404, body = ''Not Found'', json = None :: FormData option\<rparr> \<and>
   getFormData (Resolved \<lparr>status = 404, body = ''Not Found'', json = None\<rparr>)
     = Inl (Error ''Failed to fetch form data'') \<and>
   formData (FormPage_initial (Single ''3f2a'')) = None \<and>
   render (fetchData (Resolved \<lparr>status = 404, body = ''Not Found'', json = None\<rparr>)
             (FormPage_initial (Single ''3f2a'')))
     = ErrorView (Some ''Error'') ''Unable to load form data. Please try again later.''"
  using load_failure_is_generic
          [of "\<lparr>status = 404, body = ''Not Found'', json = None\<rparr>"
              "Resolved \<lparr>status = 404, body = ''Not Found'', json = None\<rparr>"
              "FormPage_initial (Single ''3f2a'')"]
  by (simp add: ok_def FormPage_initial_def)

section \<open>FormPage: submitting the form\<close>

lemma truthy_iff: "truthy v \<longleftrightarrow> v \<noteq> None \<and> v \<noteq> Some []"
  by (cases v) auto

lemma is_SubmittedView_render: "is_SubmittedView (render page) \<Longrightarrow> isSubmitted page"
  by (auto simp: render_def split: if_splits option.splits)

lemma is_FormView_render:
  "is_FormView (render page) \<Longrightarrow>
     \<not> truthy (error page) \<and> \<not> FormPage.isLoading page \<and> formData page \<noteq> None"
  by (auto simp: render_def split: if_splits option.splits)

lemma render_FormView_table:
  "is_FormView (render page) \<Longrightarrow> \<exists>t. property translations_table (lang page) = Some t"
  by (auto simp: render_def split: if_splits option.splits)

lemma FormPage_handleSubmit_calls:
  "c \<in> set (snd (FormPage_handleSubmit page)) \<Longrightarrow>
     snd c = signature page \<and> truthy (snd c) \<and> usable (FormPage.sessionId page) = Some (fst c)"
  by (auto simp: FormPage_handleSubmit_def split: if_splits)

lemma FormPage_step_calls:
  "c \<in> set (snd (FormPage_step e page)) \<Longrightarrow> truthy (snd c)"
  by (cases e) (auto dest: FormPage_handleSubmit_calls split: if_splits)

lemma FormPage_run_calls:
  "c \<in> set (snd (FormPage_run evs page)) \<Longrightarrow> truthy (snd c)"
proof (induction evs arbitrary: page)
  case Nil
  then show ?case by simp
next
  case (Cons e evs)
  obtain page' calls where step: "FormPage_step e page = (page', calls)"
    by (cases "FormPage_step e page")
  obtain page'' calls' where run: "FormPage_run evs page' = (page'', calls')"
    by (cases "FormPage_run evs page'")
  from Cons.prems step run have "c \<in> set calls \<or> c \<in> set calls'" by simp
  then show ?case
  proof
    assume "c \<in> set calls"
    with step FormPage_step_calls [of c e page] show ?thesis by simp
  next
    assume "c \<in> set calls'"
    with run Cons.IH [of page'] show ?thesis by simp
  qed
qed

lemma handleEnd_delivers:
  "v \<in> set (snd (handleEnd lib pad)) \<Longrightarrow>
     \<exists>canvas. sigRef pad = Some canvas \<and> \<not> isEmpty lib canvas
        \<and> v = Some (toDataURL lib canvas ''image/png'')"
  by (auto simp: handleEnd_def split: option.splits if_splits)

lemma handleClear_delivers: "v \<in> set (snd (handleClear lib pad)) \<Longrightarrow> v = None"
  by (auto simp: handleClear_def split: option.splits)

lemma submit_form_fails:
  "sig = None \<or> (\<exists>a. sig = Some a \<and> \<not> valid a) \<or> phase s \<noteq> FORM_REVIEW \<Longrightarrow>
     \<exists>failed. submit_form valid now sig s = Inl failed"
  by (auto simp: submit_form_def split: option.splits)

text \<open>
  Claim C2. Submit-form fails whenever no valid signature is supplied or the phase of
  the session is not \<open>FORM_REVIEW\<close>. On the client, \<open>submitForm\<close> is never called with a
  null signature, whatever happens to the page: the handler returns early, calling
  nothing, when the signature is null or empty; the submit button is disabled while
  the signature is null; and the pad delivers a non-null signature only from a canvas
  that is not empty (clearing delivers null).
\<close>

theorem submit_needs_signature:
  "((sig = None \<or> (\<exists>a. sig = Some a \<and> \<not> valid a) \<or> phase s \<noteq> FORM_REVIEW) \<longrightarrow>
      (\<exists>failed. submit_form valid now sig s = Inl failed)) \<and>
   (\<forall>c \<in> set (snd (FormPage_run evs page)). snd c \<noteq> None \<and> snd c \<noteq> Some '''') \<and>
   (\<not> truthy (signature page) \<longrightarrow> FormPage_handleSubmit page = (page, [])) \<and>
   (signature page = None \<longrightarrow> FormPage_submit_disabled page) \<and>
   (\<forall>v \<in> set (snd (handleEnd lib pad)).
      \<exists>canvas. sigRef pad = Some canvas \<and> \<not> isEmpty lib canvas
        \<and> v = Some (toDataURL lib canvas ''image/png'')) \<and>
   (\<forall>v \<in> set (snd (handleClear lib pad)). v = None)"
proof (intro conjI)
  show "(sig = None \<or> (\<exists>a. sig = Some a \<and> \<not> valid a) \<or> phase s \<noteq> FORM_REVIEW) \<longrightarrow>
      (\<exists>failed. submit_form valid now sig s = Inl failed)"
    using submit_form_fails [of sig valid s now] by blast
  show "\<forall>c \<in> set (snd (FormPage_run evs page)). snd c \<noteq> None \<and> snd c \<noteq> Some ''''"
    using FormPage_run_calls [of _ evs page] by (auto simp: truthy_iff)
  show "\<not> truthy (signature page) \<longrightarrow> FormPage_handleSubmit page = (page, [])"
    by (simp add: FormPage_handleSubmit_def)
  show "signature page = None \<longrightarrow> FormPage_submit_disabled page"
    by (simp add: FormPage_submit_disabled_def)
  show "\<forall>v \<in> set (snd (handleEnd lib pad)).
      \<exists>canvas. sigRef pad = Some canvas \<and> \<not> isEmpty lib canvas
        \<and> v = Some (toDataURL lib canvas ''image/png'')"
    using handleEnd_delivers [of _ lib pad] by blast
  show "\<forall>v \<in> set (snd (handleClear lib pad)). v = None"
    using handleClear_delivers [of _ lib pad] by blast
qed

theorem submit_needs_signature_witness:
  "(\<exists>failed. submit_form (\<lambda>a. a \<noteq> '''') 1700000000 None example_Session = Inl failed) \<and>
   snd (FormPage_run example_failed_submission (FormPage_initial (Single ''3f2a'')))
     = [(''3f2a'', Some ''data:image/png;base64,iVBOR'')] \<and>
   FormPage_handleSubmit (FormPage_initial (Single ''3f2a''))
     = (FormPage_initial (Single ''3f2a''), []) \<and>
   FormPage_submit_disabled (FormPage_initial (Single ''3f2a'')) \<and>
   snd (handleEnd example_canvas \<lparr>sigRef = Some [1, 2], hasSignature = False\<rparr>)
     = [Some ''data:image/png;base64,iVBOR''] \<and>
   snd (handleEnd example_canvas \<lparr>sigRef = Some [], hasSignature = False\<rparr>) = [] \<and>
   snd (handleClear example_canvas \<lparr>sigRef = Some [1, 2], hasSignature = True\<rparr>) = [None]"
  using submit_needs_signature
          [of None "\<lambda>a. a \<noteq> ''''" example_Session 1700000000 example_failed_submission
              "FormPage_initial (Single ''3f2a'')" example_canvas
              "\<lparr>sigRef = Some [1, 2], hasSignature = False\<rparr>"]
  by (simp add: example_failed_submission_def FormPage_initial_def fetchData_def
        getFormData_def receive_def ok_def render_def lang_def example_FormData_def property_def
        translations_table_def translations_es_def FormPage_submit_disabled_def
        FormPage_handleSubmit_def FormPage_handleSubmit_settled_def submitForm_def handleEnd_def handleClear_def
        example_canvas_def)

lemma FormPage_step_isSubmitted:
  "isSubmitted (fst (FormPage_step e page)) \<Longrightarrow>
     isSubmitted page \<or> (\<exists>outcome r. e = SubmitSettled outcome \<and> submitForm outcome = Inr r)"
  by (cases e)
     (auto simp: fetchData_def FormPage_handleSubmit_def FormPage_handleSubmit_settled_def
           split: if_splits sum.splits)

lemma FormPage_run_isSubmitted:
  "isSubmitted (fst (FormPage_run evs page)) \<Longrightarrow>
     isSubmitted page \<or>
     (\<exists>outcome r. SubmitSettled outcome \<in> set evs \<and> submitForm outcome = Inr r)"
proof (induction evs arbitrary: page)
  case Nil
  then show ?case by simp
next
  case (Cons e evs)
  obtain page' calls where step: "FormPage_step e page = (page', calls)"
    by (cases "FormPage_step e page")
  with Cons.prems have "isSubmitted (fst (FormPage_run evs page'))"
    by (simp split: prod.splits)
  from Cons.IH [OF this] show ?case
  proof
    assume "isSubmitted page'"
    with step FormPage_step_isSubmitted [of e page] show ?thesis by auto
  next
    assume "\<exists>outcome r. SubmitSettled outcome \<in> set evs \<and> submitForm outcome = Inr r"
    then show ?thesis by auto
  qed
qed

lemma settled_failed:
  "submitForm outcome = Inl e \<Longrightarrow>
     FormPage_handleSubmit_settled outcome page =
       page\<lparr>error := Some ''Failed to submit form. Please try again.'', isSubmitting := False\<rparr>"
  by (simp add: FormPage_handleSubmit_settled_def)

lemma render_error_set:
  "render (page\<lparr>error := Some ''Failed to submit form. Please try again.'', isSubmitting := False\<rparr>)
     = (if FormPage.isLoading page then LoadingView
        else case property translations_table (lang page) of
               None \<Rightarrow> RenderThrows TypeError
             | Some t \<Rightarrow> ErrorView (property t ''error'') ''Failed to submit form. Please try again.'')"
  by (simp add: render_def lang_def split: option.splits)

text \<open>
  Claim C8, as stated: if \<open>submitForm\<close> rejects, \<open>isSubmitted\<close> remains false, an error
  message is set, and the unsubmitted form stays visible. The last part fails: after
  the subject has opened the form, signed and submitted, and the server has answered
  with status 500, the page shows the error view, not the form.
\<close>

theorem failed_submission_counterexample:
  "render (fst (FormPage_run example_failed_submission (FormPage_initial (Single ''3f2a''))))
     = ErrorView (Some ''Error'') ''Failed to submit form. Please try again.'' \<and>
   \<not> is_FormView
       (render (fst (FormPage_run example_failed_submission (FormPage_initial (Single ''3f2a'')))))"
  by (simp add: example_failed_submission_def FormPage_initial_def fetchData_def getFormData_def
        receive_def ok_def render_def lang_def example_FormData_def property_def
        translations_table_def translations_es_def FormPage_submit_disabled_def
        FormPage_handleSubmit_def FormPage_handleSubmit_settled_def submitForm_def)

text \<open>
  Claim C8, amended. The success view is shown only after \<open>submitForm\<close> has resolved
  successfully. If \<open>submitForm\<close> rejects (as it does for every response that is not ok),
  \<open>isSubmitted\<close> keeps its value, the error message "Failed to submit form. Please try
  again." is set, the success view is not shown, and a page that showed the form now
  shows the error view with that message in place of the form.
\<close>

theorem failed_submission_shows_error:
  "(\<not> ok response \<longrightarrow> submitForm (Resolved response) = Inl (Error ''Failed to submit form'')) \<and>
   (\<forall>e. submitForm outcome = Inl e \<longrightarrow>
      isSubmitted (FormPage_handleSubmit_settled outcome page) = isSubmitted page \<and>
      error (FormPage_handleSubmit_settled outcome page)
        = Some ''Failed to submit form. Please try again.'' \<and>
      \<not> is_SubmittedView (render (FormPage_handleSubmit_settled outcome page)) \<and>
      (is_FormView (render page) \<longrightarrow>
         (\<exists>title. render (FormPage_handleSubmit_settled outcome page)
                    = ErrorView title ''Failed to submit form. Please try again.''))) \<and>
   (is_SubmittedView (render (fst (FormPage_run evs (FormPage_initial q)))) \<longrightarrow>
      (\<exists>outcome r. SubmitSettled outcome \<in> set evs \<and> submitForm outcome = Inr r))"
proof (intro conjI allI impI)
  assume "\<not> ok response"
  then show "submitForm (Resolved response) = Inl (Error ''Failed to submit form'')"
    by (simp add: submitForm_def receive_not_ok)
next
  fix e assume f: "submitForm outcome = Inl e"
  show "isSubmitted (FormPage_handleSubmit_settled outcome page) = isSubmitted page"
    by (simp add: settled_failed [OF f])
  show "error (FormPage_handleSubmit_settled outcome page)
          = Some ''Failed to submit form. Please try again.''"
    by (simp add: settled_failed [OF f])
  show "\<not> is_SubmittedView (render (FormPage_handleSubmit_settled outcome page))"
    by (simp add: settled_failed [OF f] render_error_set split: option.splits)
  assume v: "is_FormView (render page)"
  from is_FormView_render [OF v] render_FormView_table [OF v]
  show "\<exists>title. render (FormPage_handleSubmit_settled outcome page)
                    = ErrorView title ''Failed to submit form. Please try again.''"
    by (auto simp: settled_failed [OF f] render_error_set)
next
  assume "is_SubmittedView (render (fst (FormPage_run evs (FormPage_initial q))))"
  then have "isSubmitted (fst (FormPage_run evs (FormPage_initial q)))"
    by (rule is_SubmittedView_render)
  from FormPage_run_isSubmitted [OF this]
  show "\<exists>outcome r. SubmitSettled outcome \<in> set evs \<and> submitForm outcome = Inr r"
    by (simp add: FormPage_initial_def)
qed

theorem failed_submission_shows_error_witness:
  "\<not> ok \<lparr>status = 500, body = ''Internal Server Error'', json = None :: SubmitResponse option\<rparr> \<and>
   submitForm (Resolved \<lparr>status = 500, body = ''Internal Server Error'', json = None\<rparr>)
     = Inl (Error ''Failed to submit form'') \<and>
   is_FormView (render (fst (FormPage_run (butlast example_failed_submission)
                               (FormPage_initial (Single ''3f2a''))))) \<and>
   (\<exists>title. render (FormPage_handleSubmit_settled
                     (Resolved \<lparr>status = 500, body = ''Internal Server Error'', json = None\<rparr>)
                     (fst (FormPage_run (butlast example_failed_submission)
                             (FormPage_initial (Single ''3f2a'')))))
             = ErrorView title ''Failed to submit form. Please try again.'') \<and>
   is_SubmittedView (render (fst (FormPage_run example_successful_submission
                                    (FormPage_initial (Single ''3f2a''))))) \<and>
   (\<exists>outcome r. SubmitSettled outcome \<in> set example_successful_submission
                 \<and> submitForm outcome = Inr r)"
  using failed_submission_shows_error
          [of "\<lparr>status = 500, body = ''Internal Server Error'', json = None\<rparr>"
              "Resolved \<lparr>status = 500, body = ''Internal Server Error'', json = None\<rparr>"
              "fst (FormPage_run (butlast example_failed_submission)
                      (FormPage_initial (Single ''3f2a'')))"
              example_successful_submission "Single ''3f2a''"]
  by (simp add: example_failed_submission_def example_successful_submission_def FormPage_initial_def fetchData_def
        getFormData_def receive_def ok_def render_def lang_def example_FormData_def property_def
        translations_table_def translations_es_def FormPage_submit_disabled_def
        FormPage_handleSubmit_def FormPage_handleSubmit_settled_def submitForm_def)

section \<open>Home: starting a call\<close>

lemma language_options_values:
  "k < length language_options \<Longrightarrow> fst (language_options ! k) \<in> {''en'', ''es''}"
  by (auto simp: language_options_def less_Suc_eq)

lemma Home_step_language:
  "Home.language home \<in> {''en'', ''es''} \<Longrightarrow>
     Home.language (fst (Home_step e home)) \<in> {''en'', ''es''}"
  using language_options_values
  by (cases e)
     (auto simp: Home_handleSubmit_def Home_handleSubmit_settled_def split: sum.splits)

lemma Home_step_calls:
  "r \<in> set (snd (Home_step e home)) \<Longrightarrow>
     OutboundCallRequest.first_name r \<noteq> [] \<and> phone_number r \<noteq> [] \<and>
     OutboundCallRequest.language r = Some (Home.language home)"
  by (cases e) (auto simp: Home_handleSubmit_def Home_submit_disabled_def split: if_splits)

lemma Home_run_language:
  "Home.language home \<in> {''en'', ''es''} \<Longrightarrow>
     Home.language (fst (Home_run evs home)) \<in> {''en'', ''es''}"
proof (induction evs arbitrary: home)
  case Nil
  then show ?case by simp
next
  case (Cons e evs)
  obtain home' calls where step: "Home_step e home = (home', calls)"
    by (cases "Home_step e home")
  from Home_step_language [OF Cons.prems, of e] step
  have "Home.language home' \<in> {''en'', ''es''}" by simp
  from Cons.IH [OF this] step show ?case by (auto split: prod.splits)
qed

lemma Home_run_calls:
  "Home.language home \<in> {''en'', ''es''} \<Longrightarrow> r \<in> set (snd (Home_run evs home)) \<Longrightarrow>
     OutboundCallRequest.first_name r \<noteq> [] \<and> phone_number r \<noteq> [] \<and>
     OutboundCallRequest.language r \<in> {Some ''en'', Some ''es''}"
proof (induction evs arbitrary: home)
  case Nil
  then show ?case by simp
next
  case (Cons e evs)
  obtain home' calls where step: "Home_step e home = (home', calls)"
    by (cases "Home_step e home")
  obtain home'' calls' where run: "Home_run evs home' = (home'', calls')"
    by (cases "Home_run evs home'")
  from Home_step_language [OF Cons.prems(1), of e] step
  have l: "Home.language home' \<in> {''en'', ''es''}" by simp
  from Cons.prems(2) step run have "r \<in> set calls \<or> r \<in> set calls'" by simp
  then show ?case
  proof
    assume "r \<in> set calls"
    with step Home_step_calls [of r e home] Cons.prems(1) show ?thesis by auto
  next
    assume "r \<in> set calls'"
    with run Cons.IH [OF l] show ?thesis by simp
  qed
qed

lemma Home_initial_language: "Home.language Home_initial \<in> {''en'', ''es''}"
  by (simp add: Home_initial_def)

lemma stringify_keys:
  "OutboundCallRequest.language r \<noteq> None \<Longrightarrow>
     keys (stringify_OutboundCallRequest r) = [''first_name'', ''phone_number'', ''language'']"
  by (auto simp: stringify_OutboundCallRequest_def keys_def)

text \<open>
  Claim C5. Initiate-call takes exactly the properties \<open>first_name\<close>, \<open>phone_number\<close>
  and \<open>language\<close> and returns an object with \<open>success\<close>, \<open>session_id\<close> and \<open>message\<close>.
  Whatever happens to the home page, every request it hands to \<open>initiateOutboundCall\<close>
  has a non-empty first name and phone number and is sent with exactly those three
  properties; for every response that is not ok (and when the request itself fails)
  \<open>initiateOutboundCall\<close> throws and returns no value; for an ok response it returns the
  object that the server sent.
\<close>

theorem initiate_call_contract:
  "(\<forall>r \<in> set (snd (Home_run evs Home_initial)).
      OutboundCallRequest.first_name r \<noteq> '''' \<and> phone_number r \<noteq> '''' \<and>
      keys (stringify_OutboundCallRequest r) = [''first_name'', ''phone_number'', ''language'']) \<and>
   (\<not> ok response \<longrightarrow>
      initiateOutboundCall (Resolved response) = Inl (Error ''Failed to initiate call'')) \<and>
   initiateOutboundCall Rejected = Inl TypeError \<and>
   (ok response \<and> json response = Some answer \<longrightarrow>
      initiateOutboundCall (Resolved response) = Inr answer)"
proof (intro conjI ballI)
  fix r assume "r \<in> set (snd (Home_run evs Home_initial))"
  from Home_run_calls [OF Home_initial_language this]
  show "OutboundCallRequest.first_name r \<noteq> ''''" and "phone_number r \<noteq> ''''"
    and "keys (stringify_OutboundCallRequest r) = [''first_name'', ''phone_number'', ''language'']"
    by (auto intro: stringify_keys)
next
  show "\<not> ok response \<longrightarrow>
      initiateOutboundCall (Resolved response) = Inl (Error ''Failed to initiate call'')"
    by (simp add: initiateOutboundCall_def receive_not_ok)
  show "initiateOutboundCall Rejected = Inl TypeError"
    by (simp add: initiateOutboundCall_def receive_def)
  show "ok response \<and> json response = Some answer \<longrightarrow>
      initiateOutboundCall (Resolved response) = Inr answer"
    by (simp add: initiateOutboundCall_def receive_def)
qed

theorem initiate_call_contract_witness:
  "snd (Home_run example_home_events Home_initial)
     = [\<lparr>OutboundCallRequest.first_name = ''Ana'', phone_number = ''+15550001111'',
         OutboundCallRequest.language = Some ''es''\<rparr>] \<and>
   keys (stringify_OutboundCallRequest
           \<lparr>OutboundCallRequest.first_name = ''Ana'', phone_number = ''+15550001111'',
            OutboundCallRequest.language = Some ''es''\<rparr>)
     = [''first_name'', ''phone_number'', ''language''] \<and>
   initiateOutboundCall (Resolved \<lparr>status = 503, body = ''Service Unavailable'', json = None\<rparr>)
     = Inl (Error ''Failed to initiate call'') \<and>
   initiateOutboundCall
     (Resolved \<lparr>status = 200, body = '''',
        json = Some \<lparr>OutboundCallResponse.success = True,
                      OutboundCallResponse.session_id = ''3f2a'',
                      OutboundCallResponse.message = ''Call initiated''\<rparr>\<rparr>)
     = Inr \<lparr>OutboundCallResponse.success = True, OutboundCallResponse.session_id = ''3f2a'',
            OutboundCallResponse.message = ''Call initiated''\<rparr>"
  using initiate_call_contract
          [of example_home_events
              "\<lparr>status = 503, body = ''Service Unavailable'', json = None\<rparr>"]
        initiate_call_contract
          [of example_home_events
              "\<lparr>status = 200, body = '''',
                json = Some \<lparr>OutboundCallResponse.success = True,
                              OutboundCallResponse.session_id = ''3f2a'',
                              OutboundCallResponse.message = ''Call initiated''\<rparr>\<rparr>"
              "\<lparr>OutboundCallResponse.success = True, OutboundCallResponse.session_id = ''3f2a'',
                OutboundCallResponse.message = ''Call initiated''\<rparr>"]
  by (simp add: example_home_events_def Home_initial_def Home_submit_disabled_def
        Home_handleSubmit_def language_options_def ok_def)

section \<open>The two locales\<close>

lemma keys_en_es: "keys translations_en = keys translations_es"
  by (simp add: keys_def translations_en_def translations_es_def)

lemma Language_eq: "Language = [''en'', ''es'']"
  by (simp add: Language_def keys_def translations_table_def)

lemma reads_en: "k \<in> set FormPage_reads \<Longrightarrow> \<exists>v. property translations_en k = Some v"
  by (auto simp: FormPage_reads_def property_def translations_en_def)

lemma reads_es: "k \<in> set FormPage_reads \<Longrightarrow> \<exists>v. property translations_es k = Some v"
  by (auto simp: FormPage_reads_def property_def translations_es_def)

text \<open>
  Claim C7. The preferred language is two-valued: the supported locales are exactly
  \<open>en\<close> and \<open>es\<close>. The table for \<open>en\<close> and the table for \<open>es\<close> define exactly the same
  set of keys, every text that the form page reads has a translation in each of the
  two, and the home page can only hold, and submit, the language \<open>en\<close> or \<open>es\<close>.
\<close>

theorem two_locales:
  "Language = [''en'', ''es''] \<and>
   set (keys translations_en) = set (keys translations_es) \<and>
   (\<forall>l \<in> set Language. \<forall>k \<in> set FormPage_reads.
      \<exists>t v. property translations_table l = Some t \<and> property t k = Some v) \<and>
   Home.language (fst (Home_run evs Home_initial)) \<in> {''en'', ''es''} \<and>
   (\<forall>r \<in> set (snd (Home_run evs Home_initial)).
      OutboundCallRequest.language r \<in> {Some ''en'', Some ''es''})"
proof (intro conjI ballI)
  show "Language = [''en'', ''es'']" by (rule Language_eq)
  show "set (keys translations_en) = set (keys translations_es)" by (simp add: keys_en_es)
  show "Home.language (fst (Home_run evs Home_initial)) \<in> {''en'', ''es''}"
    by (rule Home_run_language [OF Home_initial_language])
next
  fix l k assume "l \<in> set Language" and k: "k \<in> set FormPage_reads"
  then have "l = ''en'' \<or> l = ''es''" by (simp add: Language_eq)
  then show "\<exists>t v. property translations_table l = Some t \<and> property t k = Some v"
    using reads_en [OF k] reads_es [OF k]
    by (auto simp: property_def translations_table_def)
next
  fix r assume "r \<in> set (snd (Home_run evs Home_initial))"
  from Home_run_calls [OF Home_initial_language this]
  show "OutboundCallRequest.language r \<in> {Some ''en'', Some ''es''}" by simp
qed

theorem two_locales_witness:
  "''es'' \<in> set Language \<and> ''zipCode'' \<in> set FormPage_reads \<and>
   (\<exists>t v. property translations_table ''es'' = Some t \<and> property t ''zipCode'' = Some v) \<and>
   Home.language (fst (Home_run example_home_events Home_initial)) = ''es'' \<and>
   map OutboundCallRequest.language (snd (Home_run example_home_events Home_initial))
     = [Some ''es'']"
proof -
  note t = two_locales [of example_home_events]
  have l: "''es'' \<in> set Language"
    by (simp add: conjunct1 [OF t])
  have k: "''zipCode'' \<in> set FormPage_reads"
    by (simp add: FormPage_reads_def)
  from t l k have "\<exists>t v. property translations_table ''es'' = Some t \<and> property t ''zipCode'' = Some v"
    by blast
  with l k show ?thesis
    by (simp add: example_home_events_def Home_initial_def Home_submit_disabled_def
          Home_handleSubmit_def language_options_def)
qed

section \<open>The queries\<close>




text \<open>
  Claim C6. The session-status query returns exactly the four fields \<open>session_id\<close>,
  \<open>call_completed\<close>, \<open>form_submitted\<close> and \<open>opted_in_for_sms\<close> for every session that
  exists. The client asks for them with a GET of \<open>/api/forms/{session_id}/status\<close> and
  returns the object of an ok response as it is, while the table of the README
  documents \<open>GET /api/calls/session/{session_id}\<close> and has no row for the path that the
  client reads.
\<close>

theorem session_status_contract:
  "(store sid = Some s \<longrightarrow>
      session_status completed store sid =
        Inr \<lparr>SessionStatus.session_id = session_identifier s,
             SessionStatus.call_completed = completed s,
             form_submitted = submitted s,
             opted_in_for_sms = opted_in s\<rparr>) \<and>
   getSessionStatus_request api sid =
     \<lparr>http_method = ''GET'',
      url = api @ instantiate [Lit ''/api/forms/'', SessionIdParam, Lit ''/status''] sid,
      sent = None\<rparr> \<and>
   (ok response \<and> json response = Some answer \<longrightarrow>
      getSessionStatus (Resolved response) = Inr answer) \<and>
   (''GET'', [Lit ''/api/calls/session/'', SessionIdParam], ''Get session details'')
      \<in> set README_endpoints \<and>
   [Lit ''/api/forms/'', SessionIdParam, Lit ''/status'']
      \<notin> set (map (\<lambda>row. fst (snd row)) README_endpoints)"
  by (simp add: session_status_def getSessionStatus_request_def getSessionStatus_def
        receive_def README_endpoints_def)

theorem session_status_contract_witness:
  "example_store ''3f2a'' = Some example_Session \<and>
   session_status (\<lambda>s. phase s \<noteq> INITIATED) example_store ''3f2a''
     = Inr \<lparr>SessionStatus.session_id = ''3f2a'', SessionStatus.call_completed = True,
            form_submitted = False, opted_in_for_sms = True\<rparr> \<and>
   url (getSessionStatus_request default_API_URL ''3f2a'')
     = ''https://zappix2-backend.aldea.ai/api/forms/3f2a/status'' \<and>
   getSessionStatus (Resolved \<lparr>status = 200, body = '''',
        json = Some \<lparr>SessionStatus.session_id = ''3f2a'', SessionStatus.call_completed = True,
                      form_submitted = False, opted_in_for_sms = True\<rparr>\<rparr>)
     = Inr \<lparr>SessionStatus.session_id = ''3f2a'', SessionStatus.call_completed = True,
            form_submitted = False, opted_in_for_sms = True\<rparr>"
  using session_status_contract
          [of example_store "''3f2a''" example_Session "\<lambda>s. phase s \<noteq> INITIATED"
              default_API_URL
              "\<lparr>status = 200, body = '''',
                json = Some \<lparr>SessionStatus.session_id = ''3f2a'',
                              SessionStatus.call_completed = True,
                              form_submitted = False, opted_in_for_sms = True\<rparr>\<rparr>"
              "\<lparr>SessionStatus.session_id = ''3f2a'', SessionStatus.call_completed = True,
                form_submitted = False, opted_in_for_sms = True\<rparr>"]
  by (simp add: example_store_def example_Session_def new_session_def ok_def default_API_URL_def)

end
